theory Spec2Isabelle
  imports Main
begin

section \<open>Data model\<close>

text \<open>
  The trace context of a \<open>PropagationContext\<close> is a Go \<open>map[string]interface{}\<close>.
  The dynamic values modelled here are strings, integers and booleans (the kinds the
  documentation of the parser names).
\<close>

datatype iface = IString string | IInt int | IBool bool

text \<open>
  A Go map value is represented by the list of its entries in the order in which a
  \<open>range\<close> loop over it visits them. The Go runtime fixes no such order, so nothing
  below depends on a particular one. Keys are unique.
\<close>

type_synonym gomap = "(string \<times> iface) list"

definition wf_gomap :: "gomap \<Rightarrow> bool" where
  "wf_gomap m = distinct (map fst m)"

text \<open>Lookup \<open>m[k]\<close> (with the "comma ok" result as an option).\<close>

definition lookup :: "gomap \<Rightarrow> string \<Rightarrow> iface option" where
  "lookup m k = map_of m k"

text \<open>
  Assignment \<open>m[k] = v\<close>: the value of an existing key is replaced, a new key gets a
  new entry.
\<close>

fun store :: "gomap \<Rightarrow> string \<Rightarrow> iface \<Rightarrow> gomap" where
  "store [] k v = [(k, v)]"
| "store ((k', v') # m) k v = (if k' = k then (k, v) # m else (k', v') # store m k v)"

text \<open>
  Modelled from the spec: the struct \<open>PropagationContext\<close> is declared in a file of the
  package that is not among the sources. Section 6 of the specification gives it as
  \<open>PropagationContext{TraceID, ParentID, GrandParentID string; TraceContext
  map[string]interface{}}\<close>.
\<close>

record PropagationContext =
  TraceID :: string
  ParentID :: string
  GrandParentID :: string
  TraceContext :: gomap

text \<open>
  Modelled from the spec: the method \<open>IsValid\<close> of \<open>PropagationContext\<close> is not among the
  sources. Section 6 of the specification: it returns true iff
  \<open>TraceID != "" && ParentID != ""\<close>.
\<close>

definition IsValid :: "PropagationContext \<Rightarrow> bool" where
  "IsValid p = (TraceID p \<noteq> [] \<and> ParentID p \<noteq> [])"

text \<open>
  Modelled from the spec: the struct \<open>PropagationError\<close> is not among the sources.
  Section 6 of the specification gives it as \<open>PropagationError{message string, cause
  error}\<close>; the cause is represented by its message.
\<close>

record PropagationError =
  message :: string
  wrappedError :: "string option"

section \<open>The functions of the Go standard library that the code calls\<close>

text \<open>
  \<open>strings.SplitN(s, sep, n)\<close> for a separator of one byte and \<open>n \<ge> 0\<close>: no piece for
  \<open>n = 0\<close>, otherwise at most \<open>n\<close> pieces, the last one holding the unsplit rest.
\<close>

fun SplitN :: "string \<Rightarrow> char \<Rightarrow> nat \<Rightarrow> string list" where
  "SplitN s sep 0 = []"
| "SplitN s sep (Suc 0) = [s]"
| "SplitN s sep (Suc (Suc n)) =
     (case dropWhile (\<lambda>c. c \<noteq> sep) s of
        [] \<Rightarrow> [s]
      | _ # rest \<Rightarrow> takeWhile (\<lambda>c. c \<noteq> sep) s # SplitN rest sep (Suc n))"

text \<open>
  \<open>strings.Split(s, sep)\<close> is \<open>SplitN\<close> with \<open>n = strings.Count(s, sep) + 1\<close>.
\<close>

definition Split :: "string \<Rightarrow> char \<Rightarrow> string list" where
  "Split s sep = SplitN s sep (Suc (count_list s sep))"

text \<open>\<open>strings.Join(elems, sep)\<close>.\<close>

fun Join :: "string list \<Rightarrow> string \<Rightarrow> string" where
  "Join [] sep = []"
| "Join [a] sep = a"
| "Join (a # b # rest) sep = a @ sep @ Join (b # rest) sep"

text \<open>
  \<open>strings.ToLower\<close> on the bytes of a string: the letters \<open>A\<close> to \<open>Z\<close> are mapped to
  \<open>a\<close> to \<open>z\<close>. On a string with bytes outside ASCII Go maps whole code points; the only
  code points outside ASCII whose lower case is an ASCII letter are U+0130 (to \<open>i\<close>) and
  U+212A (to \<open>k\<close>), and neither letter occurs in the four keys the parser compares the
  result with, so the comparisons of the parser have the same outcome.
\<close>

definition lower_byte :: "char \<Rightarrow> char" where
  "lower_byte c =
     (if 65 \<le> (of_char c :: nat) \<and> (of_char c :: nat) \<le> 90
      then char_of ((of_char c :: nat) + 32) else c)"

definition ToLower :: "string \<Rightarrow> string" where
  "ToLower s = map lower_byte s"

text \<open>
  The verb \<open>%v\<close> of \<open>fmt.Sprintf\<close> on the modelled dynamic values: a string as it is,
  an integer in decimal, a boolean as \<open>true\<close> or \<open>false\<close>.
\<close>

definition digit_char :: "nat \<Rightarrow> char" where
  "digit_char d = char_of (of_char CHR ''0'' + d)"

fun show_nat :: "nat \<Rightarrow> string" where
  "show_nat n = (if 10 \<le> n then show_nat (n div 10) @ [digit_char (n mod 10)] else [digit_char n])"

declare show_nat.simps [simp del]

fun Sprintv :: "iface \<Rightarrow> string" where
  "Sprintv (IString s) = s"
| "Sprintv (IInt i) = (if i < 0 then CHR ''-'' # show_nat (nat (- i)) else show_nat (nat i))"
| "Sprintv (IBool b) = (if b then ''true'' else ''false'')"

section \<open>MarshalAmazonTraceContext\<close>

definition amazonTracePropagationHTTPHeader :: string where
  "amazonTracePropagationHTTPHeader = ''X-Amzn-Trace-Id''"

text \<open>
  The function has no error result; what could stop it is a run-time panic, and the
  only operation of its body that can panic is the indexed write \<open>elems[i] = ...\<close>.
  The model returns \<open>Inl\<close> of the panic or \<open>Inr\<close> of the returned string.
\<close>

datatype runtime_panic = IndexOutOfRange

text \<open>
  The loop \<open>for k, v := range prop.TraceContext\<close> (lines 36 to 39), from the entries
  still to visit, the index \<open>i\<close> and the slice \<open>elems\<close>.
\<close>

fun fill_elems :: "gomap \<Rightarrow> nat \<Rightarrow> string list \<Rightarrow> runtime_panic + string list" where
  "fill_elems [] i elems = Inr elems"
| "fill_elems ((k, v) # rest) i elems =
     (if i < length elems then fill_elems rest (Suc i) (elems[i := k @ ''='' @ Sprintv v])
      else Inl IndexOutOfRange)"

text \<open>The pointer argument is an option: \<open>None\<close> is \<open>nil\<close>.\<close>

definition MarshalAmazonTraceContext ::
    "PropagationContext option \<Rightarrow> runtime_panic + string" where
  "MarshalAmazonTraceContext prop =
     (case prop of
        None \<Rightarrow> Inr []
      | Some p \<Rightarrow>
          (let h = ''Root='' @ TraceID p @ '';Parent='' @ ParentID p;
               h = (if GrandParentID p \<noteq> [] then h @ '';GrandParent='' @ GrandParentID p
                    else h)
           in if length (TraceContext p) \<noteq> 0
              then (case fill_elems (TraceContext p) 0
                           (replicate (length (TraceContext p)) []) of
                      Inl e \<Rightarrow> Inl e
                    | Inr elems \<Rightarrow>
                        (let traceContext = '';'' @ Join elems '';''
                         in Inr (h @ traceContext)))
              else Inr h))"

section \<open>UnmarshalAmazonTraceContext\<close>

text \<open>
  The variables of the function while it scans the segments: the context under
  construction (the variable \<open>prop\<close>) and the two strings \<open>parent\<close> and \<open>grandParent\<close>.
\<close>

record locals =
  propCtx :: PropagationContext
  parent :: string
  grandParent :: string

definition init_locals :: locals where
  "init_locals =
     \<lparr>propCtx = \<lparr>TraceID = [], ParentID = [], GrandParentID = [], TraceContext = []\<rparr>,
      parent = [], grandParent = []\<rparr>"

text \<open>The body of the loop over the segments (lines 76 to 91).\<close>

definition scan_segment :: "locals \<Rightarrow> string \<Rightarrow> locals" where
  "scan_segment st segment =
     (let keyval = SplitN segment CHR ''='' 2 in
      if length keyval < 2 then st
      else
        (let k = ToLower (keyval ! 0) in
         if k = ''self'' then st\<lparr>propCtx := (propCtx st)\<lparr>ParentID := keyval ! 1\<rparr>\<rparr>
         else if k = ''root'' then st\<lparr>propCtx := (propCtx st)\<lparr>TraceID := keyval ! 1\<rparr>\<rparr>
         else if k = ''parent'' then st\<lparr>parent := keyval ! 1\<rparr>
         else if k = ''grandparent'' then st\<lparr>grandParent := keyval ! 1\<rparr>
         else st\<lparr>propCtx := (propCtx st)\<lparr>TraceContext :=
                 store (TraceContext (propCtx st)) (keyval ! 0) (IString (keyval ! 1))\<rparr>\<rparr>))"

text \<open>The loop (line 75).\<close>

definition scan :: "string list \<Rightarrow> locals" where
  "scan segments = foldl scan_segment init_locals segments"

text \<open>The \<open>switch\<close> after the loop (lines 94 to 108).\<close>

definition reconcile :: "locals \<Rightarrow> PropagationContext" where
  "reconcile st =
     (if ParentID (propCtx st) = [] \<and> parent st \<noteq> [] \<and> grandParent st \<noteq> []
      then (propCtx st)\<lparr>ParentID := parent st, GrandParentID := grandParent st\<rparr>
      else if ParentID (propCtx st) = [] \<and> parent st \<noteq> []
      then (propCtx st)\<lparr>ParentID := parent st\<rparr>
      else if ParentID (propCtx st) \<noteq> [] \<and> parent st \<noteq> []
      then (propCtx st)\<lparr>GrandParentID := parent st\<rparr>
      else propCtx st)"

text \<open>The fallback to the root (lines 113 to 115).\<close>

definition root_fallback :: "PropagationContext \<Rightarrow> PropagationContext" where
  "root_fallback p = (if TraceID p \<noteq> [] \<and> ParentID p = [] then p\<lparr>ParentID := TraceID p\<rparr> else p)"

text \<open>
  The function returns a pair of a pointer and an error, each of which may be \<open>nil\<close>
  (\<open>None\<close>).
\<close>

definition UnmarshalAmazonTraceContext ::
    "string \<Rightarrow> PropagationContext option \<times> PropagationError option" where
  "UnmarshalAmazonTraceContext header =
     (let segments = Split header CHR '';'';
          p = root_fallback (reconcile (scan segments))
      in if \<not> IsValid p
         then (None, Some \<lparr>message = ''unable to parse header into propagationcontext: '' @ header,
                           wrappedError = None\<rparr>)
         else (Some p, None))"

section \<open>Auxiliary facts\<close>

subsection \<open>Splitting and joining\<close>

lemma dropWhile_sep: "sep \<notin> set a \<Longrightarrow> dropWhile (\<lambda>c. c \<noteq> sep) (a @ sep # b) = sep # b"
  by (induction a) auto

lemma takeWhile_sep: "sep \<notin> set a \<Longrightarrow> takeWhile (\<lambda>c. c \<noteq> sep) (a @ sep # b) = a"
  by (induction a) auto

lemma dropWhile_no_sep: "sep \<notin> set a \<Longrightarrow> dropWhile (\<lambda>c. c \<noteq> sep) a = []"
  by (induction a) auto

lemma SplitN_no_sep: "sep \<notin> set s \<Longrightarrow> SplitN s sep (Suc n) = [s]"
  by (cases n) (simp_all add: dropWhile_no_sep)

lemma SplitN_sep: "sep \<notin> set a \<Longrightarrow> SplitN (a @ sep # b) sep (Suc (Suc n)) = a # SplitN b sep (Suc n)"
  by (simp add: dropWhile_sep takeWhile_sep)

lemma count_list_no_sep: "sep \<notin> set a \<Longrightarrow> count_list (a @ b) sep = count_list b sep"
  by (induction a) auto

lemma Split_no_sep: "sep \<notin> set s \<Longrightarrow> Split s sep = [s]"
  unfolding Split_def by (rule SplitN_no_sep)

lemma Split_sep: "sep \<notin> set a \<Longrightarrow> Split (a @ sep # b) sep = a # Split b sep"
  unfolding Split_def by (simp add: count_list_no_sep SplitN_sep del: SplitN.simps)




subsection \<open>The loop over the segments\<close>


lemma SplitN_key_value: "CHR ''='' \<notin> set k \<Longrightarrow> SplitN (k @ CHR ''='' # v) CHR ''='' 2 = [k, v]"
  by (simp add: numeral_2_eq_2 dropWhile_sep takeWhile_sep)

lemma scan_segment_key_value:
  "CHR ''='' \<notin> set k \<Longrightarrow> scan_segment st (k @ CHR ''='' # v) =
     (if ToLower k = ''self'' then st\<lparr>propCtx := (propCtx st)\<lparr>ParentID := v\<rparr>\<rparr>
      else if ToLower k = ''root'' then st\<lparr>propCtx := (propCtx st)\<lparr>TraceID := v\<rparr>\<rparr>
      else if ToLower k = ''parent'' then st\<lparr>parent := v\<rparr>
      else if ToLower k = ''grandparent'' then st\<lparr>grandParent := v\<rparr>
      else st\<lparr>propCtx := (propCtx st)\<lparr>TraceContext :=
                 store (TraceContext (propCtx st)) k (IString v)\<rparr>\<rparr>)"
  by (simp add: scan_segment_def SplitN_key_value Let_def)



lemma lower_Root: "ToLower ''Root'' = ''root''"
  by code_simp

lemma lower_Parent: "ToLower ''Parent'' = ''parent''"
  by code_simp

lemma lower_GrandParent: "ToLower ''GrandParent'' = ''grandparent''"
  by code_simp

subsection \<open>The serializer\<close>

lemma fill_elems_Inr:
  "i + length m \<le> length elems \<Longrightarrow>
   fill_elems m i elems =
     Inr (take i elems @ map (\<lambda>(k, v). k @ ''='' @ Sprintv v) m @ drop (i + length m) elems)"
proof (induction m arbitrary: i elems)
  case Nil
  then show ?case by simp
next
  case (Cons e m)
  obtain k v where e: "e = (k, v)" by (cases e)
  let ?x = "k @ ''='' @ Sprintv v"
  have i: "i < length elems" using Cons.prems by simp
  have "fill_elems (e # m) i elems = fill_elems m (Suc i) (elems[i := ?x])"
    using i e by simp
  also have "\<dots> = Inr (take (Suc i) (elems[i := ?x]) @ map (\<lambda>(k, v). k @ ''='' @ Sprintv v) m
                       @ drop (Suc i + length m) (elems[i := ?x]))"
    using Cons.prems by (intro Cons.IH) simp
  also have "take (Suc i) (elems[i := ?x]) = take i elems @ [?x]"
    using i by (simp add: take_Suc_conv_app_nth)
  also have "drop (Suc i + length m) (elems[i := ?x]) = drop (i + length (e # m)) elems"
    by simp
  finally show ?case using e by simp
qed

lemma Join_concat: "xs \<noteq> [] \<Longrightarrow> sep @ Join xs sep = concat (map (\<lambda>x. sep @ x) xs)"
  by (induction xs sep rule: Join.induct) simp_all

lemma Marshal_Some_eq:
  "MarshalAmazonTraceContext (Some p) =
     Inr (''Root='' @ TraceID p @ '';Parent='' @ ParentID p
          @ (if GrandParentID p \<noteq> [] then '';GrandParent='' @ GrandParentID p else [])
          @ concat (map (\<lambda>(k, v). '';'' @ k @ ''='' @ Sprintv v) (TraceContext p)))"
proof (cases "TraceContext p = []")
  case True
  then show ?thesis by (simp add: MarshalAmazonTraceContext_def)
next
  case False
  let ?f = "\<lambda>(k, v). k @ ''='' @ Sprintv v"
  have fill: "fill_elems (TraceContext p) 0 (replicate (length (TraceContext p)) []) =
          Inr (map ?f (TraceContext p))"
    using fill_elems_Inr[of 0 "TraceContext p" "replicate (length (TraceContext p)) []"] by simp
  have "'';'' @ Join (map ?f (TraceContext p)) '';'' =
          concat (map (\<lambda>x. '';'' @ x) (map ?f (TraceContext p)))"
    using False by (intro Join_concat) simp
  also have "\<dots> = concat (map (\<lambda>(k, v). '';'' @ k @ ''='' @ Sprintv v) (TraceContext p))"
    by (simp add: case_prod_unfold comp_def)
  finally have j: "'';'' @ Join (map ?f (TraceContext p)) '';'' =
      concat (map (\<lambda>(k, v). '';'' @ k @ ''='' @ Sprintv v) (TraceContext p))" .
  show ?thesis
    using False unfolding MarshalAmazonTraceContext_def option.case Let_def fill sum.case
    by (simp add: j[simplified])
qed

lemma Marshal_example:
  "MarshalAmazonTraceContext
     (Some \<lparr>TraceID = ''1-abc'', ParentID = ''2-def'', GrandParentID = ''3-ghi'',
             TraceContext = [(''foo'', IInt (- 32)), (''baz'', IBool True),
                             (''qux'', IString ''x=y'')]\<rparr>) =
   Inr ''Root=1-abc;Parent=2-def;GrandParent=3-ghi;foo=-32;baz=true;qux=x=y''"
  by code_simp

subsection \<open>The scanned state\<close>

lemma scan_segment_GrandParentID:
  "GrandParentID (propCtx (scan_segment st seg)) = GrandParentID (propCtx st)"
  by (simp add: scan_segment_def Let_def)

lemma foldl_scan_GrandParentID:
  "GrandParentID (propCtx (foldl scan_segment st segs)) = GrandParentID (propCtx st)"
  by (induction segs arbitrary: st) (simp_all add: scan_segment_GrandParentID)

lemma scan_GrandParentID: "GrandParentID (propCtx (scan segs)) = []"
  by (simp add: scan_def foldl_scan_GrandParentID init_locals_def)

subsection \<open>Validity\<close>

lemma TraceID_reconcile: "TraceID (reconcile st) = TraceID (propCtx st)"
  by (simp add: reconcile_def)

subsection \<open>The trace context map\<close>

text \<open>
  Assignment keeps the keys of a map unique, so the map the parser builds is a
  well-formed entry list.
\<close>

lemma lookup_store: "lookup (store m k v) k' = (if k' = k then Some v else lookup m k')"
  by (induction m) (auto simp: lookup_def)

lemma keys_store: "set (map fst (store m k v)) = insert k (set (map fst m))"
proof (induction m)
  case Nil
  then show ?case by simp
next
  case (Cons e m)
  obtain k' v' where e: "e = (k', v')" by (cases e)
  show ?case using Cons e by (cases "k' = k") auto
qed

lemma wf_gomap_store: "wf_gomap m \<Longrightarrow> wf_gomap (store m k v)"
  unfolding wf_gomap_def
proof (induction m)
  case Nil
  then show ?case by simp
next
  case (Cons e m)
  obtain k' v' where e: "e = (k', v')" by (cases e)
  show ?case
  proof (cases "k' = k")
    case True
    then show ?thesis using Cons.prems e by simp
  next
    case False
    have "k' \<notin> set (map fst (store m k v))"
      using Cons.prems e False unfolding keys_store by simp
    then show ?thesis using Cons e False by simp
  qed
qed

lemma wf_gomap_scan_segment:
  "wf_gomap (TraceContext (propCtx st)) \<Longrightarrow> wf_gomap (TraceContext (propCtx (scan_segment st seg)))"
  by (simp add: scan_segment_def Let_def wf_gomap_store)

lemma wf_gomap_foldl:
  "wf_gomap (TraceContext (propCtx st)) \<Longrightarrow>
   wf_gomap (TraceContext (propCtx (foldl scan_segment st segs)))"
  by (induction segs arbitrary: st) (simp_all add: wf_gomap_scan_segment)

lemma wf_gomap_scan: "wf_gomap (TraceContext (propCtx (scan segs)))"
  unfolding scan_def by (rule wf_gomap_foldl) (simp add: init_locals_def wf_gomap_def)

subsection \<open>The returned context\<close>



subsection \<open>Segments with an empty value\<close>




subsection \<open>Serializing and parsing again\<close>

lemma Unmarshal_valid:
  "scan (Split header CHR '';'') = st \<Longrightarrow> root_fallback (reconcile st) = p \<Longrightarrow> IsValid p \<Longrightarrow>
   UnmarshalAmazonTraceContext header = (Some p, None)"
  by (simp add: UnmarshalAmazonTraceContext_def)

lemma Marshal_no_context:
  "TraceContext c = [] \<Longrightarrow>
   MarshalAmazonTraceContext (Some c) =
     Inr (''Root='' @ TraceID c @ '';Parent='' @ ParentID c
          @ (if GrandParentID c \<noteq> [] then '';GrandParent='' @ GrandParentID c else []))"
  by (simp add: MarshalAmazonTraceContext_def)

lemma scan_Root_Parent:
  assumes "CHR '';'' \<notin> set t" "CHR '';'' \<notin> set p"
  shows "scan (Split (''Root='' @ t @ '';Parent='' @ p) CHR '';'') =
           init_locals\<lparr>propCtx := (propCtx init_locals)\<lparr>TraceID := t\<rparr>, parent := p\<rparr>"
proof -
  have 1: "Split (''Root='' @ t @ '';Parent='' @ p) CHR '';'' = [''Root='' @ t, ''Parent='' @ p]"
    using Split_sep[of "CHR '';''" "''Root='' @ t" "''Parent='' @ p"] Split_no_sep[of "CHR '';''" "''Parent='' @ p"] assms
    by simp
  have 2: "scan_segment st (''Root='' @ t) = st\<lparr>propCtx := (propCtx st)\<lparr>TraceID := t\<rparr>\<rparr>" for st
    using scan_segment_key_value[of "''Root''" st t] by (simp add: lower_Root)
  have 3: "scan_segment st (''Parent='' @ p) = st\<lparr>parent := p\<rparr>" for st
    using scan_segment_key_value[of "''Parent''" st p] by (simp add: lower_Parent)
  show ?thesis unfolding 1 scan_def foldl.simps 2 3 by simp
qed

lemma scan_Root_Parent_GrandParent:
  assumes "CHR '';'' \<notin> set t" "CHR '';'' \<notin> set p" "CHR '';'' \<notin> set g"
  shows "scan (Split (''Root='' @ t @ '';Parent='' @ p @ '';GrandParent='' @ g) CHR '';'') =
           init_locals\<lparr>propCtx := (propCtx init_locals)\<lparr>TraceID := t\<rparr>, parent := p,
                         grandParent := g\<rparr>"
proof -
  have 1: "Split (''Root='' @ t @ '';Parent='' @ p @ '';GrandParent='' @ g) CHR '';'' =
             [''Root='' @ t, ''Parent='' @ p, ''GrandParent='' @ g]"
    using Split_sep[of "CHR '';''" "''Root='' @ t" "''Parent='' @ p @ '';GrandParent='' @ g"]
      Split_sep[of "CHR '';''" "''Parent='' @ p" "''GrandParent='' @ g"]
      Split_no_sep[of "CHR '';''" "''GrandParent='' @ g"] assms
    by simp
  have 2: "scan_segment st (''Root='' @ t) = st\<lparr>propCtx := (propCtx st)\<lparr>TraceID := t\<rparr>\<rparr>" for st
    using scan_segment_key_value[of "''Root''" st t] by (simp add: lower_Root)
  have 3: "scan_segment st (''Parent='' @ p) = st\<lparr>parent := p\<rparr>" for st
    using scan_segment_key_value[of "''Parent''" st p] by (simp add: lower_Parent)
  have 4: "scan_segment st (''GrandParent='' @ g) = st\<lparr>grandParent := g\<rparr>" for st
    using scan_segment_key_value[of "''GrandParent''" st g] by (simp add: lower_GrandParent)
  show ?thesis unfolding 1 scan_def foldl.simps 2 3 4 by simp
qed

section \<open>The serializer: output shape and the nil context\<close>

text \<open>
  Claim C6. For every context that is not nil, \<open>MarshalAmazonTraceContext\<close> returns
  (without a panic) the string \<open>Root=<TraceID>;Parent=<ParentID>\<close>, followed by
  \<open>;GrandParent=<GrandParentID>\<close> exactly when \<open>GrandParentID\<close> is not empty, followed
  by one segment \<open>;key=value\<close> for each entry of \<open>TraceContext\<close>, in the order in which
  the \<open>range\<close> loop visits the entries (nothing when the map is empty). The entry list
  is arbitrary, so the equation holds for every visiting order; each entry of the list
  gives exactly one segment.
\<close>

theorem Marshal_output_shape:
  "MarshalAmazonTraceContext (Some p) =
     Inr (''Root='' @ TraceID p @ '';Parent='' @ ParentID p
          @ (if GrandParentID p \<noteq> [] then '';GrandParent='' @ GrandParentID p else [])
          @ concat (map (\<lambda>(k, v). '';'' @ k @ ''='' @ Sprintv v) (TraceContext p)))"
  by (rule Marshal_Some_eq)

text \<open>
  Claim C8. \<open>MarshalAmazonTraceContext\<close> of a nil context returns the empty string, and
  for every argument, nil or not, the function returns a string: it never panics.
\<close>

theorem Marshal_nil_and_total:
  "MarshalAmazonTraceContext None = Inr [] \<and> (\<exists>h. MarshalAmazonTraceContext ctx = Inr h)"
proof (cases ctx)
  case None
  then show ?thesis by (simp add: MarshalAmazonTraceContext_def)
next
  case (Some p)
  have "MarshalAmazonTraceContext None = Inr []" by (simp add: MarshalAmazonTraceContext_def)
  then show ?thesis using Some by (simp add: Marshal_Some_eq)
qed

section \<open>The parser: segments and keys\<close>



text \<open>
  Claim C7. For every segment \<open>k=v\<close> (the key \<open>k\<close> without \<open>=\<close>), the loop body looks at
  the lower-cased key only: when it is \<open>self\<close>, \<open>root\<close>, \<open>parent\<close> or \<open>grandparent\<close> the
  value goes to \<open>ParentID\<close>, \<open>TraceID\<close>, \<open>parent\<close> or \<open>grandParent\<close>, so two keys with
  the same lower case among these four have the same effect, whatever their casing;
  for every other key the value is stored in \<open>TraceContext\<close> as a string under the key
  as it was written. The header \<open>root=1-abc;SELF=2-def\<close> parses to the same result as
  \<open>Root=1-abc;Self=2-def\<close>, and in \<open>Root=1-abc;Self=2-def;foo=32;Baz=true\<close> the keys
  \<open>foo\<close> and \<open>Baz\<close> are stored with the strings \<open>32\<close> and \<open>true\<close>.
\<close>

theorem key_classification:
  "(CHR ''='' \<notin> set k \<longrightarrow>
      (ToLower k = ''self'' \<longrightarrow>
         scan_segment st (k @ ''='' @ v) = st\<lparr>propCtx := (propCtx st)\<lparr>ParentID := v\<rparr>\<rparr>) \<and>
      (ToLower k = ''root'' \<longrightarrow>
         scan_segment st (k @ ''='' @ v) = st\<lparr>propCtx := (propCtx st)\<lparr>TraceID := v\<rparr>\<rparr>) \<and>
      (ToLower k = ''parent'' \<longrightarrow> scan_segment st (k @ ''='' @ v) = st\<lparr>parent := v\<rparr>) \<and>
      (ToLower k = ''grandparent'' \<longrightarrow> scan_segment st (k @ ''='' @ v) = st\<lparr>grandParent := v\<rparr>) \<and>
      (ToLower k \<notin> {''self'', ''root'', ''parent'', ''grandparent''} \<longrightarrow>
         scan_segment st (k @ ''='' @ v) =
           st\<lparr>propCtx := (propCtx st)\<lparr>TraceContext :=
                store (TraceContext (propCtx st)) k (IString v)\<rparr>\<rparr> \<and>
         lookup (TraceContext (propCtx (scan_segment st (k @ ''='' @ v)))) k = Some (IString v))) \<and>
   (CHR ''='' \<notin> set k \<and> CHR ''='' \<notin> set k' \<and> ToLower k = ToLower k' \<and>
    ToLower k \<in> {''self'', ''root'', ''parent'', ''grandparent''} \<longrightarrow>
      scan_segment st (k @ ''='' @ v) = scan_segment st (k' @ ''='' @ v)) \<and>
   UnmarshalAmazonTraceContext ''root=1-abc;SELF=2-def'' =
     UnmarshalAmazonTraceContext ''Root=1-abc;Self=2-def'' \<and>
   UnmarshalAmazonTraceContext ''Root=1-abc;Self=2-def;foo=32;Baz=true'' =
     (Some \<lparr>TraceID = ''1-abc'', ParentID = ''2-def'', GrandParentID = [],
             TraceContext = [(''foo'', IString ''32''), (''Baz'', IString ''true'')]\<rparr>, None)"
proof -
  have kv: "CHR ''='' \<notin> set k \<Longrightarrow> scan_segment st (k @ ''='' @ v) =
     (if ToLower k = ''self'' then st\<lparr>propCtx := (propCtx st)\<lparr>ParentID := v\<rparr>\<rparr>
      else if ToLower k = ''root'' then st\<lparr>propCtx := (propCtx st)\<lparr>TraceID := v\<rparr>\<rparr>
      else if ToLower k = ''parent'' then st\<lparr>parent := v\<rparr>
      else if ToLower k = ''grandparent'' then st\<lparr>grandParent := v\<rparr>
      else st\<lparr>propCtx := (propCtx st)\<lparr>TraceContext :=
                 store (TraceContext (propCtx st)) k (IString v)\<rparr>\<rparr>)" for k
    using scan_segment_key_value[of k st v] by simp
  have 1: "CHR ''='' \<notin> set k \<longrightarrow>
      (ToLower k = ''self'' \<longrightarrow>
         scan_segment st (k @ ''='' @ v) = st\<lparr>propCtx := (propCtx st)\<lparr>ParentID := v\<rparr>\<rparr>) \<and>
      (ToLower k = ''root'' \<longrightarrow>
         scan_segment st (k @ ''='' @ v) = st\<lparr>propCtx := (propCtx st)\<lparr>TraceID := v\<rparr>\<rparr>) \<and>
      (ToLower k = ''parent'' \<longrightarrow> scan_segment st (k @ ''='' @ v) = st\<lparr>parent := v\<rparr>) \<and>
      (ToLower k = ''grandparent'' \<longrightarrow> scan_segment st (k @ ''='' @ v) = st\<lparr>grandParent := v\<rparr>) \<and>
      (ToLower k \<notin> {''self'', ''root'', ''parent'', ''grandparent''} \<longrightarrow>
         scan_segment st (k @ ''='' @ v) =
           st\<lparr>propCtx := (propCtx st)\<lparr>TraceContext :=
                store (TraceContext (propCtx st)) k (IString v)\<rparr>\<rparr> \<and>
         lookup (TraceContext (propCtx (scan_segment st (k @ ''='' @ v)))) k = Some (IString v))"
  proof
    assume k: "CHR ''='' \<notin> set k"
    show "(ToLower k = ''self'' \<longrightarrow>
         scan_segment st (k @ ''='' @ v) = st\<lparr>propCtx := (propCtx st)\<lparr>ParentID := v\<rparr>\<rparr>) \<and>
      (ToLower k = ''root'' \<longrightarrow>
         scan_segment st (k @ ''='' @ v) = st\<lparr>propCtx := (propCtx st)\<lparr>TraceID := v\<rparr>\<rparr>) \<and>
      (ToLower k = ''parent'' \<longrightarrow> scan_segment st (k @ ''='' @ v) = st\<lparr>parent := v\<rparr>) \<and>
      (ToLower k = ''grandparent'' \<longrightarrow> scan_segment st (k @ ''='' @ v) = st\<lparr>grandParent := v\<rparr>) \<and>
      (ToLower k \<notin> {''self'', ''root'', ''parent'', ''grandparent''} \<longrightarrow>
         scan_segment st (k @ ''='' @ v) =
           st\<lparr>propCtx := (propCtx st)\<lparr>TraceContext :=
                store (TraceContext (propCtx st)) k (IString v)\<rparr>\<rparr> \<and>
         lookup (TraceContext (propCtx (scan_segment st (k @ ''='' @ v)))) k = Some (IString v))"
      unfolding kv[OF k] by (simp add: lookup_store)
  qed
  have 2: "CHR ''='' \<notin> set k \<and> CHR ''='' \<notin> set k' \<and> ToLower k = ToLower k' \<and>
    ToLower k \<in> {''self'', ''root'', ''parent'', ''grandparent''} \<longrightarrow>
      scan_segment st (k @ ''='' @ v) = scan_segment st (k' @ ''='' @ v)"
  proof
    assume a: "CHR ''='' \<notin> set k \<and> CHR ''='' \<notin> set k' \<and> ToLower k = ToLower k' \<and>
      ToLower k \<in> {''self'', ''root'', ''parent'', ''grandparent''}"
    then have "scan_segment st (k @ ''='' @ v) = 
       (if ToLower k = ''self'' then st\<lparr>propCtx := (propCtx st)\<lparr>ParentID := v\<rparr>\<rparr>
      else if ToLower k = ''root'' then st\<lparr>propCtx := (propCtx st)\<lparr>TraceID := v\<rparr>\<rparr>
      else if ToLower k = ''parent'' then st\<lparr>parent := v\<rparr>
      else st\<lparr>grandParent := v\<rparr>)"
      unfolding kv[of k, OF conjunct1[OF a]] by auto
    moreover have "scan_segment st (k' @ ''='' @ v) = 
       (if ToLower k = ''self'' then st\<lparr>propCtx := (propCtx st)\<lparr>ParentID := v\<rparr>\<rparr>
      else if ToLower k = ''root'' then st\<lparr>propCtx := (propCtx st)\<lparr>TraceID := v\<rparr>\<rparr>
      else if ToLower k = ''parent'' then st\<lparr>parent := v\<rparr>
      else st\<lparr>grandParent := v\<rparr>)"
      using a unfolding kv[of k', OF conjunct1[OF conjunct2[OF a]]] by auto
    ultimately show "scan_segment st (k @ ''='' @ v) = scan_segment st (k' @ ''='' @ v)"
      by simp
  qed
  have 3: "UnmarshalAmazonTraceContext ''root=1-abc;SELF=2-def'' =
     UnmarshalAmazonTraceContext ''Root=1-abc;Self=2-def''"
    by code_simp
  have 4: "UnmarshalAmazonTraceContext ''Root=1-abc;Self=2-def;foo=32;Baz=true'' =
     (Some \<lparr>TraceID = ''1-abc'', ParentID = ''2-def'', GrandParentID = [],
             TraceContext = [(''foo'', IString ''32''), (''Baz'', IString ''true'')]\<rparr>, None)"
    by code_simp
  show ?thesis using 1 2 3 4 by blast
qed

text \<open>
  The hypotheses hold of the keys \<open>SELF\<close>, \<open>rOOt\<close>, \<open>Parent\<close>, \<open>GrandParent\<close> and \<open>Foo\<close>,
  one for each case, and of the pair \<open>SELF\<close> and \<open>self\<close>.
\<close>

theorem key_classification_witness:
  "CHR ''='' \<notin> set ''SELF'' \<and> ToLower ''SELF'' = ''self'' \<and>
   scan_segment init_locals ''SELF=2-def'' =
     init_locals\<lparr>propCtx := (propCtx init_locals)\<lparr>ParentID := ''2-def''\<rparr>\<rparr> \<and>
   CHR ''='' \<notin> set ''rOOt'' \<and> ToLower ''rOOt'' = ''root'' \<and>
   scan_segment init_locals ''rOOt=1-abc'' =
     init_locals\<lparr>propCtx := (propCtx init_locals)\<lparr>TraceID := ''1-abc''\<rparr>\<rparr> \<and>
   CHR ''='' \<notin> set ''Parent'' \<and> ToLower ''Parent'' = ''parent'' \<and>
   scan_segment init_locals ''Parent=3-ghi'' = init_locals\<lparr>parent := ''3-ghi''\<rparr> \<and>
   CHR ''='' \<notin> set ''GrandParent'' \<and> ToLower ''GrandParent'' = ''grandparent'' \<and>
   scan_segment init_locals ''GrandParent=4-jkl'' = init_locals\<lparr>grandParent := ''4-jkl''\<rparr> \<and>
   CHR ''='' \<notin> set ''Foo'' \<and> ToLower ''Foo'' \<notin> {''self'', ''root'', ''parent'', ''grandparent''} \<and>
   scan_segment init_locals ''Foo=32'' =
     init_locals\<lparr>propCtx := (propCtx init_locals)\<lparr>TraceContext :=
        store (TraceContext (propCtx init_locals)) ''Foo'' (IString ''32'')\<rparr>\<rparr> \<and>
   lookup (TraceContext (propCtx (scan_segment init_locals ''Foo=32''))) ''Foo'' =
     Some (IString ''32'') \<and>
   CHR ''='' \<notin> set ''self'' \<and> ToLower ''SELF'' = ToLower ''self'' \<and>
   ToLower ''SELF'' \<in> {''self'', ''root'', ''parent'', ''grandparent''} \<and>
   scan_segment init_locals ''SELF=2-def'' = scan_segment init_locals ''self=2-def''"
proof -
  have e: "CHR ''='' \<notin> set ''SELF''" "CHR ''='' \<notin> set ''rOOt''" "CHR ''='' \<notin> set ''Parent''"
    "CHR ''='' \<notin> set ''GrandParent''" "CHR ''='' \<notin> set ''Foo''" "CHR ''='' \<notin> set ''self''"
    by simp_all
  have l: "ToLower ''SELF'' = ''self''" "ToLower ''rOOt'' = ''root''"
    "ToLower ''Parent'' = ''parent''" "ToLower ''GrandParent'' = ''grandparent''"
    "ToLower ''Foo'' = ''foo''" "ToLower ''self'' = ''self''"
    by code_simp+
  have n: "ToLower ''Foo'' \<notin> {''self'', ''root'', ''parent'', ''grandparent''}"
    unfolding l by simp
  have m: "ToLower ''SELF'' \<in> {''self'', ''root'', ''parent'', ''grandparent''}"
    unfolding l by simp
  have a: "''SELF'' @ ''='' @ ''2-def'' = ''SELF=2-def''" "''rOOt'' @ ''='' @ ''1-abc'' = ''rOOt=1-abc''"
    "''Parent'' @ ''='' @ ''3-ghi'' = ''Parent=3-ghi''"
    "''GrandParent'' @ ''='' @ ''4-jkl'' = ''GrandParent=4-jkl''"
    "''Foo'' @ ''='' @ ''32'' = ''Foo=32''" "''self'' @ ''='' @ ''2-def'' = ''self=2-def''"
    by simp_all
  note k1 = key_classification[of "''SELF''" init_locals "''2-def''" "''self''", unfolded a]
  note k2 = key_classification[of "''rOOt''" init_locals "''1-abc''" "''rOOt''", unfolded a]
  note k3 = key_classification[of "''Parent''" init_locals "''3-ghi''" "''Parent''", unfolded a]
  note k4 = key_classification[of "''GrandParent''" init_locals "''4-jkl''" "''GrandParent''",
      unfolded a]
  note k5 = key_classification[of "''Foo''" init_locals "''32''" "''Foo''", unfolded a]
  have s1: "scan_segment init_locals ''SELF=2-def'' =
     init_locals\<lparr>propCtx := (propCtx init_locals)\<lparr>ParentID := ''2-def''\<rparr>\<rparr>"
    using k1 e(1) l(1) by blast
  have s2: "scan_segment init_locals ''rOOt=1-abc'' =
     init_locals\<lparr>propCtx := (propCtx init_locals)\<lparr>TraceID := ''1-abc''\<rparr>\<rparr>"
    using k2 e(2) l(2) by blast
  have s3: "scan_segment init_locals ''Parent=3-ghi'' = init_locals\<lparr>parent := ''3-ghi''\<rparr>"
    using k3 e(3) l(3) by blast
  have s4: "scan_segment init_locals ''GrandParent=4-jkl'' = init_locals\<lparr>grandParent := ''4-jkl''\<rparr>"
    using k4 e(4) l(4) by blast
  have s5: "scan_segment init_locals ''Foo=32'' =
     init_locals\<lparr>propCtx := (propCtx init_locals)\<lparr>TraceContext :=
        store (TraceContext (propCtx init_locals)) ''Foo'' (IString ''32'')\<rparr>\<rparr> \<and>
   lookup (TraceContext (propCtx (scan_segment init_locals ''Foo=32''))) ''Foo'' =
     Some (IString ''32'')"
    using k5 e(5) n by blast
  have s6: "scan_segment init_locals ''SELF=2-def'' = scan_segment init_locals ''self=2-def''"
  proof -
    have q: "ToLower ''SELF'' = ToLower ''self''" unfolding l by (rule refl)
    show ?thesis using k1 e(1) e(6) q m by blast
  qed
  have q: "ToLower ''SELF'' = ToLower ''self''" unfolding l by (rule refl)
  show ?thesis using e l(1-4) q n m s1 s2 s3 s4 s5 s6 by blast
qed

section \<open>The parser: reconciliation\<close>

text \<open>
  Claim C1. For every header, let \<open>st\<close> be the variables after the loop over all
  segments: \<open>ParentID (propCtx st)\<close> is the value taken from a \<open>self\<close> segment,
  \<open>parent st\<close> the one from a \<open>parent\<close> segment and \<open>grandParent st\<close> the one from a
  \<open>grandparent\<close> segment; \<open>GrandParentID\<close> is still empty then. The \<open>switch\<close> changes
  neither \<open>TraceID\<close> nor \<open>TraceContext\<close>, and exactly one of four cases applies
  (their conditions exclude each other):
  \<^item> self empty, parent and grandParent not empty: \<open>ParentID\<close> becomes \<open>parent\<close> and
    \<open>GrandParentID\<close> becomes \<open>grandParent\<close>;
  \<^item> self empty, parent not empty, grandParent empty: \<open>ParentID\<close> becomes \<open>parent\<close>,
    \<open>GrandParentID\<close> is unchanged;
  \<^item> self and parent not empty: \<open>GrandParentID\<close> becomes \<open>parent\<close>, whatever
    \<open>grandParent\<close> is, and \<open>ParentID\<close> is unchanged;
  \<^item> otherwise (parent empty): neither \<open>ParentID\<close> nor \<open>GrandParentID\<close> changes.

  The context the function returns is the reconciled one after the fallback to the
  root, when that is valid. The four headers of the specification's examples give the
  contexts it lists.
\<close>

theorem reconcile_cases:
  "(let st = scan (Split header CHR '';'');
        self = ParentID (propCtx st);
        p = reconcile st
    in GrandParentID (propCtx st) = [] \<and>
       TraceID p = TraceID (propCtx st) \<and>
       TraceContext p = TraceContext (propCtx st) \<and>
       ((self = [] \<and> parent st \<noteq> [] \<and> grandParent st \<noteq> [] \<and>
           ParentID p = parent st \<and> GrandParentID p = grandParent st) \<or>
        (self = [] \<and> parent st \<noteq> [] \<and> grandParent st = [] \<and>
           ParentID p = parent st \<and> GrandParentID p = GrandParentID (propCtx st)) \<or>
        (self \<noteq> [] \<and> parent st \<noteq> [] \<and>
           ParentID p = self \<and> GrandParentID p = parent st) \<or>
        (parent st = [] \<and>
           ParentID p = self \<and> GrandParentID p = GrandParentID (propCtx st))) \<and>
       fst (UnmarshalAmazonTraceContext header) =
         (if IsValid (root_fallback p) then Some (root_fallback p) else None)) \<and>
   UnmarshalAmazonTraceContext ''Root=1-abc;Self=2-def;Parent=3-ghi'' =
     (Some \<lparr>TraceID = ''1-abc'', ParentID = ''2-def'', GrandParentID = ''3-ghi'',
             TraceContext = []\<rparr>, None) \<and>
   UnmarshalAmazonTraceContext ''Root=1-abc;Parent=3-ghi;GrandParent=4-jkl'' =
     (Some \<lparr>TraceID = ''1-abc'', ParentID = ''3-ghi'', GrandParentID = ''4-jkl'',
             TraceContext = []\<rparr>, None) \<and>
   UnmarshalAmazonTraceContext ''Root=1-abc;Parent=3-ghi'' =
     (Some \<lparr>TraceID = ''1-abc'', ParentID = ''3-ghi'', GrandParentID = [],
             TraceContext = []\<rparr>, None) \<and>
   UnmarshalAmazonTraceContext ''Root=1-abc;Self=2-def'' =
     (Some \<lparr>TraceID = ''1-abc'', ParentID = ''2-def'', GrandParentID = [],
             TraceContext = []\<rparr>, None)"
proof -
  have gen: "(let st = scan (Split header CHR '';'');
        self = ParentID (propCtx st);
        p = reconcile st
    in GrandParentID (propCtx st) = [] \<and>
       TraceID p = TraceID (propCtx st) \<and>
       TraceContext p = TraceContext (propCtx st) \<and>
       ((self = [] \<and> parent st \<noteq> [] \<and> grandParent st \<noteq> [] \<and>
           ParentID p = parent st \<and> GrandParentID p = grandParent st) \<or>
        (self = [] \<and> parent st \<noteq> [] \<and> grandParent st = [] \<and>
           ParentID p = parent st \<and> GrandParentID p = GrandParentID (propCtx st)) \<or>
        (self \<noteq> [] \<and> parent st \<noteq> [] \<and>
           ParentID p = self \<and> GrandParentID p = parent st) \<or>
        (parent st = [] \<and>
           ParentID p = self \<and> GrandParentID p = GrandParentID (propCtx st))) \<and>
       fst (UnmarshalAmazonTraceContext header) =
         (if IsValid (root_fallback p) then Some (root_fallback p) else None))"
    unfolding Let_def
    by (auto simp: reconcile_def scan_GrandParentID UnmarshalAmazonTraceContext_def Let_def)
  have e1: "UnmarshalAmazonTraceContext ''Root=1-abc;Self=2-def;Parent=3-ghi'' =
     (Some \<lparr>TraceID = ''1-abc'', ParentID = ''2-def'', GrandParentID = ''3-ghi'',
             TraceContext = []\<rparr>, None)"
    by code_simp
  have e2: "UnmarshalAmazonTraceContext ''Root=1-abc;Parent=3-ghi;GrandParent=4-jkl'' =
     (Some \<lparr>TraceID = ''1-abc'', ParentID = ''3-ghi'', GrandParentID = ''4-jkl'',
             TraceContext = []\<rparr>, None)"
    by code_simp
  have e3: "UnmarshalAmazonTraceContext ''Root=1-abc;Parent=3-ghi'' =
     (Some \<lparr>TraceID = ''1-abc'', ParentID = ''3-ghi'', GrandParentID = [],
             TraceContext = []\<rparr>, None)"
    by code_simp
  have e4: "UnmarshalAmazonTraceContext ''Root=1-abc;Self=2-def'' =
     (Some \<lparr>TraceID = ''1-abc'', ParentID = ''2-def'', GrandParentID = [],
             TraceContext = []\<rparr>, None)"
    by code_simp
  show ?thesis using gen e1 e2 e3 e4 by blast
qed

section \<open>The parser: recognised keys with an empty value\<close>



section \<open>The parser: validation and the fallback to the root\<close>

text \<open>
  Claim C3. For every header, let \<open>p\<close> be the context that the function validates: the
  reconciled context after the fallback to the root (lines 94 to 115). The function
  returns no context together with a \<open>PropagationError\<close> whose message ends with the
  original header if and only if \<open>TraceID p\<close> or \<open>ParentID p\<close> is empty; it returns \<open>p\<close>
  and no error if and only if both are non-empty, so no context is ever returned with
  an error. That \<open>p\<close> is invalid exactly when no \<open>TraceID\<close> was scanned. Parsing the
  empty string returns such an error.
\<close>

theorem Unmarshal_error_iff_invalid:
  "(let st = scan (Split header CHR '';'');
        p = root_fallback (reconcile st);
        err = \<lparr>message = ''unable to parse header into propagationcontext: '' @ header,
                wrappedError = None\<rparr>
    in (UnmarshalAmazonTraceContext header = (None, Some err)) = (TraceID p = [] \<or> ParentID p = []) \<and>
       (UnmarshalAmazonTraceContext header = (Some p, None)) = (TraceID p \<noteq> [] \<and> ParentID p \<noteq> []) \<and>
       (TraceID p = [] \<or> ParentID p = []) = (TraceID (propCtx st) = [])) \<and>
   UnmarshalAmazonTraceContext [] =
     (None, Some \<lparr>message = ''unable to parse header into propagationcontext: '',
                   wrappedError = None\<rparr>)"
proof -
  define st where "st = scan (Split header CHR '';'')"
  define p where "p = root_fallback (reconcile st)"
  have u: "UnmarshalAmazonTraceContext header =
      (if \<not> IsValid p
       then (None, Some \<lparr>message = ''unable to parse header into propagationcontext: '' @ header,
                wrappedError = None\<rparr>)
       else (Some p, None))"
    by (simp add: UnmarshalAmazonTraceContext_def st_def p_def)
  have v: "(\<not> IsValid p) = (TraceID p = [] \<or> ParentID p = [])"
    by (auto simp: IsValid_def)
  have 1: "(UnmarshalAmazonTraceContext header =
        (None, Some \<lparr>message = ''unable to parse header into propagationcontext: '' @ header,
                wrappedError = None\<rparr>)) = (TraceID p = [] \<or> ParentID p = [])"
    unfolding u v[symmetric] by simp
  have 2: "(UnmarshalAmazonTraceContext header = (Some p, None)) =
        (TraceID p \<noteq> [] \<and> ParentID p \<noteq> [])"
    unfolding u using v by simp
  have 3: "(TraceID p = [] \<or> ParentID p = []) = (TraceID (propCtx st) = [])"
    by (auto simp: p_def root_fallback_def TraceID_reconcile)
  have 4: "UnmarshalAmazonTraceContext [] =
     (None, Some \<lparr>message = ''unable to parse header into propagationcontext: '',
                   wrappedError = None\<rparr>)"
    by code_simp
  show ?thesis using 1 2 3 4 unfolding Let_def st_def p_def by blast
qed

text \<open>
  Claim C4. For every header for which, after the reconciliation, \<open>TraceID\<close> is not
  empty and \<open>ParentID\<close> is empty, the function succeeds and returns the reconciled
  context with \<open>ParentID\<close> set to \<open>TraceID\<close>. Parsing \<open>Root=1-abc\<close> succeeds with
  \<open>TraceID = ParentID = 1-abc\<close> and an empty \<open>GrandParentID\<close>.
\<close>

theorem root_only_fallback:
  "(let r = reconcile (scan (Split header CHR '';''))
    in TraceID r \<noteq> [] \<and> ParentID r = [] \<longrightarrow>
       UnmarshalAmazonTraceContext header = (Some (r\<lparr>ParentID := TraceID r\<rparr>), None)) \<and>
   UnmarshalAmazonTraceContext ''Root=1-abc'' =
     (Some \<lparr>TraceID = ''1-abc'', ParentID = ''1-abc'', GrandParentID = [], TraceContext = []\<rparr>,
      None)"
proof -
  have "UnmarshalAmazonTraceContext ''Root=1-abc'' =
     (Some \<lparr>TraceID = ''1-abc'', ParentID = ''1-abc'', GrandParentID = [], TraceContext = []\<rparr>,
      None)"
    by code_simp
  then show ?thesis
    by (simp add: UnmarshalAmazonTraceContext_def Let_def root_fallback_def IsValid_def)
qed

text \<open>The header \<open>Root=1-abc\<close> satisfies the hypothesis.\<close>

theorem root_only_fallback_witness:
  "TraceID (reconcile (scan (Split ''Root=1-abc'' CHR '';''))) \<noteq> [] \<and>
   ParentID (reconcile (scan (Split ''Root=1-abc'' CHR '';''))) = [] \<and>
   UnmarshalAmazonTraceContext ''Root=1-abc'' =
     (Some ((reconcile (scan (Split ''Root=1-abc'' CHR '';'')))
              \<lparr>ParentID := TraceID (reconcile (scan (Split ''Root=1-abc'' CHR '';'')))\<rparr>), None) \<and>
   TraceID (reconcile (scan (Split ''Root=1-abc'' CHR '';''))) = ''1-abc''"
proof -
  have h: "TraceID (reconcile (scan (Split ''Root=1-abc'' CHR '';''))) \<noteq> [] \<and>
           ParentID (reconcile (scan (Split ''Root=1-abc'' CHR '';''))) = []"
    by code_simp
  have t: "TraceID (reconcile (scan (Split ''Root=1-abc'' CHR '';''))) = ''1-abc''"
    by code_simp
  show ?thesis
    using root_only_fallback[of "''Root=1-abc''"] h t unfolding Let_def by blast
qed

section \<open>Round trips\<close>

text \<open>
  Claim C2, as amended. No byte of an identifier is escaped by the serializer, and the
  parser cuts the header at every \<open>;\<close>. For every context with a non-empty \<open>TraceID\<close>
  and a non-empty \<open>ParentID\<close>, neither of which contains the byte \<open>;\<close>, with an empty
  \<open>GrandParentID\<close> and an empty \<open>TraceContext\<close>: serializing returns a header, parsing
  that header succeeds (a context and no error), and the returned context has the same
  \<open>TraceID\<close> and the same \<open>ParentID\<close>.
\<close>

theorem roundtrip_no_grandparent:
  assumes "TraceID c \<noteq> []" and "ParentID c \<noteq> []"
    and "GrandParentID c = []" and "TraceContext c = []"
    and "CHR '';'' \<notin> set (TraceID c)" and "CHR '';'' \<notin> set (ParentID c)"
  shows "\<exists>h p. MarshalAmazonTraceContext (Some c) = Inr h \<and>
           UnmarshalAmazonTraceContext h = (Some p, None) \<and>
           TraceID p = TraceID c \<and> ParentID p = ParentID c"
proof -
  let ?h = "''Root='' @ TraceID c @ '';Parent='' @ ParentID c"
  let ?p = "\<lparr>TraceID = TraceID c, ParentID = ParentID c, GrandParentID = [], TraceContext = []\<rparr>"
  have m: "MarshalAmazonTraceContext (Some c) = Inr ?h"
    using assms(3,4) by (simp add: Marshal_no_context)
  have "UnmarshalAmazonTraceContext ?h = (Some ?p, None)"
  proof (rule Unmarshal_valid[OF scan_Root_Parent[OF assms(5,6)]])
    show "root_fallback (reconcile (init_locals\<lparr>propCtx := (propCtx init_locals)\<lparr>TraceID := TraceID c\<rparr>,
             parent := ParentID c\<rparr>)) = ?p"
      using assms(1,2) by (simp add: init_locals_def reconcile_def root_fallback_def)
    show "IsValid ?p" using assms(1,2) by (simp add: IsValid_def)
  qed
  then have "\<exists>p. UnmarshalAmazonTraceContext ?h = (Some p, None) \<and>
           TraceID p = TraceID c \<and> ParentID p = ParentID c"
    by simp
  with m show ?thesis by blast
qed

text \<open>The hypotheses hold of the context with \<open>TraceID = 1-abc\<close> and \<open>ParentID = 2-def\<close>.\<close>

theorem roundtrip_no_grandparent_witness:
  "(let c = \<lparr>TraceID = ''1-abc'', ParentID = ''2-def'', GrandParentID = [], TraceContext = []\<rparr>
    in TraceID c \<noteq> [] \<and> ParentID c \<noteq> [] \<and> GrandParentID c = [] \<and> TraceContext c = [] \<and>
       CHR '';'' \<notin> set (TraceID c) \<and> CHR '';'' \<notin> set (ParentID c) \<and>
       (\<exists>h p. MarshalAmazonTraceContext (Some c) = Inr h \<and>
           UnmarshalAmazonTraceContext h = (Some p, None) \<and>
           TraceID p = TraceID c \<and> ParentID p = ParentID c))"
  using roundtrip_no_grandparent
    [of "\<lparr>TraceID = ''1-abc'', ParentID = ''2-def'', GrandParentID = [], TraceContext = []\<rparr>"]
  by simp

text \<open>
  The claim as it was stated fails when an identifier contains \<open>;\<close>: the context with
  \<open>TraceID = 1-abc;x\<close> and \<open>ParentID = 2-def\<close> satisfies its hypotheses, and parsing its
  serialized form returns a context whose \<open>TraceID\<close> is \<open>1-abc\<close>.
\<close>

theorem roundtrip_no_grandparent_counterexample:
  "TraceID \<lparr>TraceID = ''1-abc;x'', ParentID = ''2-def'', GrandParentID = [], TraceContext = []\<rparr> \<noteq> [] \<and>
   ParentID \<lparr>TraceID = ''1-abc;x'', ParentID = ''2-def'', GrandParentID = [], TraceContext = []\<rparr> \<noteq> [] \<and>
   GrandParentID \<lparr>TraceID = ''1-abc;x'', ParentID = ''2-def'', GrandParentID = [], TraceContext = []\<rparr> = [] \<and>
   TraceContext \<lparr>TraceID = ''1-abc;x'', ParentID = ''2-def'', GrandParentID = [], TraceContext = []\<rparr> = [] \<and>
   MarshalAmazonTraceContext
     (Some \<lparr>TraceID = ''1-abc;x'', ParentID = ''2-def'', GrandParentID = [], TraceContext = []\<rparr>) =
     Inr ''Root=1-abc;x;Parent=2-def'' \<and>
   UnmarshalAmazonTraceContext ''Root=1-abc;x;Parent=2-def'' =
     (Some \<lparr>TraceID = ''1-abc'', ParentID = ''2-def'', GrandParentID = [], TraceContext = []\<rparr>,
      None) \<and>
   ''1-abc'' \<noteq> ''1-abc;x''"
  by code_simp

text \<open>
  Claim C9, as amended. For every context with non-empty \<open>TraceID\<close>, \<open>ParentID\<close> and
  \<open>GrandParentID\<close>, none of which contains the byte \<open>;\<close>, and with an empty
  \<open>TraceContext\<close>: serializing returns a header, parsing that header succeeds, and the
  returned context has the same \<open>TraceID\<close>, \<open>ParentID\<close> and \<open>GrandParentID\<close> (the header
  has no \<open>Self\<close> segment, so the first case of the reconciliation applies).
\<close>

theorem roundtrip_grandparent:
  assumes "TraceID c \<noteq> []" and "ParentID c \<noteq> []"
    and "GrandParentID c \<noteq> []" and "TraceContext c = []"
    and "CHR '';'' \<notin> set (TraceID c)" and "CHR '';'' \<notin> set (ParentID c)"
    and "CHR '';'' \<notin> set (GrandParentID c)"
  shows "\<exists>h p. MarshalAmazonTraceContext (Some c) = Inr h \<and>
           UnmarshalAmazonTraceContext h = (Some p, None) \<and>
           TraceID p = TraceID c \<and> ParentID p = ParentID c \<and>
           GrandParentID p = GrandParentID c"
proof -
  let ?h = "''Root='' @ TraceID c @ '';Parent='' @ ParentID c @ '';GrandParent='' @ GrandParentID c"
  let ?p = "\<lparr>TraceID = TraceID c, ParentID = ParentID c, GrandParentID = GrandParentID c,
             TraceContext = []\<rparr>"
  have m: "MarshalAmazonTraceContext (Some c) = Inr ?h"
    using assms(3,4) by (simp add: Marshal_no_context)
  have "UnmarshalAmazonTraceContext ?h = (Some ?p, None)"
  proof (rule Unmarshal_valid[OF scan_Root_Parent_GrandParent[OF assms(5,6,7)]])
    show "root_fallback (reconcile (init_locals\<lparr>propCtx := (propCtx init_locals)\<lparr>TraceID := TraceID c\<rparr>,
             parent := ParentID c, grandParent := GrandParentID c\<rparr>)) = ?p"
      using assms(1,2,3) by (simp add: init_locals_def reconcile_def root_fallback_def)
    show "IsValid ?p" using assms(1,2) by (simp add: IsValid_def)
  qed
  then have "\<exists>p. UnmarshalAmazonTraceContext ?h = (Some p, None) \<and>
           TraceID p = TraceID c \<and> ParentID p = ParentID c \<and> GrandParentID p = GrandParentID c"
    by simp
  with m show ?thesis by blast
qed

text \<open>
  The hypotheses hold of the context with \<open>TraceID = 1-abc\<close>, \<open>ParentID = 2-def\<close> and
  \<open>GrandParentID = 3-ghi\<close>.
\<close>

theorem roundtrip_grandparent_witness:
  "(let c = \<lparr>TraceID = ''1-abc'', ParentID = ''2-def'', GrandParentID = ''3-ghi'',
              TraceContext = []\<rparr>
    in TraceID c \<noteq> [] \<and> ParentID c \<noteq> [] \<and> GrandParentID c \<noteq> [] \<and> TraceContext c = [] \<and>
       CHR '';'' \<notin> set (TraceID c) \<and> CHR '';'' \<notin> set (ParentID c) \<and>
       CHR '';'' \<notin> set (GrandParentID c) \<and>
       (\<exists>h p. MarshalAmazonTraceContext (Some c) = Inr h \<and>
           UnmarshalAmazonTraceContext h = (Some p, None) \<and>
           TraceID p = TraceID c \<and> ParentID p = ParentID c \<and>
           GrandParentID p = GrandParentID c))"
  using roundtrip_grandparent
    [of "\<lparr>TraceID = ''1-abc'', ParentID = ''2-def'', GrandParentID = ''3-ghi'',
          TraceContext = []\<rparr>"]
  by simp

text \<open>
  The claim as it was stated fails when an identifier contains \<open>;\<close>: the context with
  \<open>GrandParentID = 3-ghi;Self=4-jkl\<close> satisfies its hypotheses, its serialized form has a
  \<open>Self\<close> segment, and parsing it returns \<open>ParentID = 4-jkl\<close> and \<open>GrandParentID = 2-def\<close>.
\<close>

theorem roundtrip_grandparent_counterexample:
  "TraceID \<lparr>TraceID = ''1-abc'', ParentID = ''2-def'', GrandParentID = ''3-ghi;Self=4-jkl'',
            TraceContext = []\<rparr> \<noteq> [] \<and>
   ParentID \<lparr>TraceID = ''1-abc'', ParentID = ''2-def'', GrandParentID = ''3-ghi;Self=4-jkl'',
             TraceContext = []\<rparr> \<noteq> [] \<and>
   GrandParentID \<lparr>TraceID = ''1-abc'', ParentID = ''2-def'', GrandParentID = ''3-ghi;Self=4-jkl'',
                  TraceContext = []\<rparr> \<noteq> [] \<and>
   TraceContext \<lparr>TraceID = ''1-abc'', ParentID = ''2-def'', GrandParentID = ''3-ghi;Self=4-jkl'',
                 TraceContext = []\<rparr> = [] \<and>
   MarshalAmazonTraceContext
     (Some \<lparr>TraceID = ''1-abc'', ParentID = ''2-def'', GrandParentID = ''3-ghi;Self=4-jkl'',
             TraceContext = []\<rparr>) =
     Inr ''Root=1-abc;Parent=2-def;GrandParent=3-ghi;Self=4-jkl'' \<and>
   UnmarshalAmazonTraceContext ''Root=1-abc;Parent=2-def;GrandParent=3-ghi;Self=4-jkl'' =
     (Some \<lparr>TraceID = ''1-abc'', ParentID = ''4-jkl'', GrandParentID = ''2-def'',
             TraceContext = []\<rparr>, None) \<and>
   ''4-jkl'' \<noteq> ''2-def'' \<and> ''2-def'' \<noteq> ''3-ghi;Self=4-jkl''"
  by code_simp

end
